theory Spec2Isabelle
  imports Main "HOL-Library.Code_Target_Nat"
begin

section \<open>JavaScript values and property lookup\<close>

text \<open>
  The TypeScript of \<^verbatim>\<open>infrastructure/bin/app.ts\<close> and of the network stack compiles to
  JavaScript that runs under node. Two pieces of the language's semantics decide what the
  lookup tables return and are written out here: a property read on an object literal
  consults the object's own properties and then its prototype \<^verbatim>\<open>Object.prototype\<close>, and
  \<^verbatim>\<open>a || b\<close> yields \<^verbatim>\<open>a\<close> when \<^verbatim>\<open>a\<close> is truthy and \<^verbatim>\<open>b\<close> otherwise.
\<close>

datatype 'a js_value =
    Undefined
  | Entry 'a
  | ObjectPrototypeMember string

text \<open>
  The property names every object literal inherits from \<^verbatim>\<open>Object.prototype\<close> under node:
  eleven methods and the accessor \<^verbatim>\<open>__proto__\<close>, whose value is \<^verbatim>\<open>Object.prototype\<close>
  itself.
\<close>

definition object_prototype_keys :: "string list" where
  "object_prototype_keys =
     [''constructor'', ''hasOwnProperty'', ''isPrototypeOf'', ''propertyIsEnumerable'',
      ''toLocaleString'', ''toString'', ''valueOf'', ''__proto__'',
      ''__defineGetter__'', ''__defineSetter__'', ''__lookupGetter__'', ''__lookupSetter__'']"

text \<open>\<^verbatim>\<open>obj[key]\<close> for an object literal \<^verbatim>\<open>obj\<close> given by its own properties.\<close>

definition js_get :: "(string \<times> 'a) list \<Rightarrow> string \<Rightarrow> 'a js_value" where
  "js_get obj key =
     (case map_of obj key of
        Some v \<Rightarrow> Entry v
      | None \<Rightarrow> if key \<in> set object_prototype_keys then ObjectPrototypeMember key
                else Undefined)"

text \<open>
  Truthiness: \<^verbatim>\<open>undefined\<close> is falsy, functions and objects are truthy, and a table entry
  is judged by the predicate of its own type.
\<close>

fun truthy :: "('a \<Rightarrow> bool) \<Rightarrow> 'a js_value \<Rightarrow> bool" where
  "truthy t Undefined = False"
| "truthy t (Entry v) = t v"
| "truthy t (ObjectPrototypeMember k) = True"

definition js_or :: "('a \<Rightarrow> bool) \<Rightarrow> 'a js_value \<Rightarrow> 'a js_value \<Rightarrow> 'a js_value" where
  "js_or t a b = (if truthy t a then a else b)"

section \<open>The network stack's lookup tables\<close>

record vpc_config =
  maxAzs :: nat
  cidr :: string
  natGateways :: nat

text \<open>The members of the SDK's enumeration \<^verbatim>\<open>RetentionDays\<close> that the table names.\<close>

datatype RetentionDays = ONE_WEEK | TWO_WEEKS | SIX_MONTHS

text \<open>The enumeration is numeric: each member is its number of days.\<close>

fun retention_in_days :: "RetentionDays \<Rightarrow> nat" where
  "retention_in_days ONE_WEEK = 7"
| "retention_in_days TWO_WEEKS = 14"
| "retention_in_days SIX_MONTHS = 180"

definition configs :: "(string \<times> vpc_config) list" where
  "configs =
     [(''dev'', \<lparr>maxAzs = 2, cidr = ''10.0.0.0/16'', natGateways = 1\<rparr>),
      (''staging'', \<lparr>maxAzs = 2, cidr = ''10.1.0.0/16'', natGateways = 1\<rparr>),
      (''prod'', \<lparr>maxAzs = 3, cidr = ''10.2.0.0/16'', natGateways = 2\<rparr>)]"

text \<open>\<^verbatim>\<open>return configs[env as keyof typeof configs] || configs.dev;\<close>\<close>

definition getVpcConfig :: "string \<Rightarrow> vpc_config js_value" where
  "getVpcConfig env = js_or (\<lambda>c. True) (js_get configs env) (js_get configs ''dev'')"

definition retentions :: "(string \<times> RetentionDays) list" where
  "retentions = [(''dev'', ONE_WEEK), (''staging'', TWO_WEEKS), (''prod'', SIX_MONTHS)]"

text \<open>\<^verbatim>\<open>return retentions[env as keyof typeof retentions] || retentions.dev;\<close>\<close>

definition getLogRetention :: "string \<Rightarrow> RetentionDays js_value" where
  "getLogRetention env =
     js_or (\<lambda>r. retention_in_days r \<noteq> 0) (js_get retentions env) (js_get retentions ''dev'')"

text \<open>
  The properties that the constructor of \<^verbatim>\<open>FleetMonitorNetworkStack\<close> passes to the
  flow-log log group, from \<^verbatim>\<open>props.environmentName\<close>.
\<close>

datatype RemovalPolicy = RETAIN | DESTROY

record log_group_props =
  logGroupName :: string
  retention :: "RetentionDays js_value"
  removalPolicy :: RemovalPolicy

definition VPCFlowLogGroup :: "string \<Rightarrow> log_group_props" where
  "VPCFlowLogGroup environmentName =
     \<lparr>logGroupName = ''/aws/vpc/flowlogs/'' @ environmentName,
      retention = getLogRetention environmentName,
      removalPolicy = (if environmentName = ''prod'' then RETAIN else DESTROY)\<rparr>"

section \<open>Address blocks in CIDR notation\<close>

text \<open>
  The table stores each address block as a string in CIDR notation, which the SDK's VPC
  construct interprets: a dotted IPv4 address, a slash and a prefix length \<open>n\<close>. The block
  holds the \<open>2 ^ (32 - n)\<close> addresses that share the first \<open>n\<close> bits of the address.
  Addresses are read as numbers below \<open>2 ^ 32\<close>.
\<close>

definition digit_of :: "char \<Rightarrow> nat option" where
  "digit_of c = map_of (zip ''0123456789'' [0, 1, 2, 3, 4, 5, 6, 7, 8, 9]) c"

fun decimal_from :: "nat \<Rightarrow> string \<Rightarrow> nat option" where
  "decimal_from acc [] = Some acc"
| "decimal_from acc (c # cs) =
     (case digit_of c of None \<Rightarrow> None | Some d \<Rightarrow> decimal_from (10 * acc + d) cs)"

definition parse_decimal :: "string \<Rightarrow> nat option" where
  "parse_decimal s = (if s = [] then None else decimal_from 0 s)"

fun split_on :: "char \<Rightarrow> string \<Rightarrow> string list" where
  "split_on sep [] = [[]]"
| "split_on sep (c # cs) =
     (if c = sep then [] # split_on sep cs
      else (case split_on sep cs of
              [] \<Rightarrow> [[c]]
            | w # ws \<Rightarrow> (c # w) # ws))"

fun octets_value :: "nat option list \<Rightarrow> nat option" where
  "octets_value [Some a, Some b, Some c, Some d] =
     (if a \<le> 255 \<and> b \<le> 255 \<and> c \<le> 255 \<and> d \<le> 255
      then Some (((a * 256 + b) * 256 + c) * 256 + d) else None)"
| "octets_value os = None"

definition parse_ipv4 :: "string \<Rightarrow> nat option" where
  "parse_ipv4 s = octets_value (map parse_decimal (split_on CHR ''.'' s))"

text \<open>The address and the prefix length of a block.\<close>

definition parse_cidr :: "string \<Rightarrow> (nat \<times> nat) option" where
  "parse_cidr s =
     (case split_on CHR ''/'' s of
        [a, n] \<Rightarrow>
          (case (parse_ipv4 a, parse_decimal n) of
             (Some addr, Some len) \<Rightarrow> if len \<le> 32 then Some (addr, len) else None
           | _ \<Rightarrow> None)
      | _ \<Rightarrow> None)"

text \<open>The number of addresses of a block.\<close>

definition cidr_capacity :: "string \<Rightarrow> nat option" where
  "cidr_capacity s = map_option (\<lambda>(addr, len). 2 ^ (32 - len)) (parse_cidr s)"

text \<open>
  The addresses of a block: from the address with its host bits cleared, as many as the
  capacity. A string that is no CIDR block has no addresses.
\<close>

definition cidr_addresses :: "string \<Rightarrow> nat set" where
  "cidr_addresses s =
     (case parse_cidr s of
        None \<Rightarrow> {}
      | Some (addr, len) \<Rightarrow>
          {addr - addr mod 2 ^ (32 - len) ..< addr - addr mod 2 ^ (32 - len) + 2 ^ (32 - len)})"

section \<open>The composition in \<^verbatim>\<open>bin/app.ts\<close>\<close>

text \<open>
  \<^verbatim>\<open>process.env\<close>: the variables that are set, with their values. A variable that is not
  set reads as \<^verbatim>\<open>undefined\<close>.
\<close>

type_synonym process_env = "string \<rightharpoonup> string"

text \<open>
  \<^verbatim>\<open>a || b\<close> on strings that may be \<^verbatim>\<open>undefined\<close>: \<^verbatim>\<open>undefined\<close> and the empty string are
  falsy.
\<close>

definition str_or :: "string option \<Rightarrow> string option \<Rightarrow> string option" where
  "str_or a b = (case a of None \<Rightarrow> b | Some s \<Rightarrow> if s = [] then b else Some s)"

record environment =
  account :: "string option"
  region :: "string option"

text \<open>The three entries of the table \<^verbatim>\<open>environments\<close>.\<close>

definition environments_dev :: "process_env \<Rightarrow> environment" where
  "environments_dev penv =
     \<lparr>account = str_or (penv ''CDK_DEFAULT_ACCOUNT'') (penv ''AWS_ACCOUNT_ID''),
      region = str_or (penv ''CDK_DEFAULT_REGION'') (Some ''us-east-1'')\<rparr>"

definition environments_staging :: "process_env \<Rightarrow> environment" where
  "environments_staging penv =
     \<lparr>account = str_or (penv ''CDK_DEFAULT_ACCOUNT'') (penv ''AWS_ACCOUNT_ID''),
      region = str_or (penv ''CDK_DEFAULT_REGION'') (Some ''us-east-1'')\<rparr>"

definition environments_prod :: "process_env \<Rightarrow> environment" where
  "environments_prod penv =
     \<lparr>account = str_or (penv ''CDK_DEFAULT_ACCOUNT'') (penv ''AWS_ACCOUNT_ID''),
      region = str_or (penv ''CDK_DEFAULT_REGION'') (Some ''us-east-1'')\<rparr>"

definition commonTags :: "(string \<times> string) list" where
  "commonTags =
     [(''Project'', ''Fleet Monitor''),
      (''Owner'', ''Diego Cruz''),
      (''Purpose'', ''DevSecOps Portfolio Demonstration''),
      (''Repository'', ''https://github.com/diegocruzo/fleet-monitor-devops''),
      (''ManagedBy'', ''AWS CDK'')]"

text \<open>
  A stack as the script constructs it: its class, its construct id and its properties. The
  handles \<^verbatim>\<open>vpc\<close> and \<^verbatim>\<open>securityGroup\<close> are given by the construct id of the stack that
  owns them.
\<close>

datatype stack_class =
    FleetMonitorNetworkStack
  | FleetMonitorSecurityStack
  | FleetMonitorMonitoringStack
  | FleetMonitorStack

record stack =
  stack_class :: stack_class
  construct_id :: string
  env :: environment
  environmentName :: string
  vpc :: "string option"
  securityGroup :: "string option"
  stackName :: string
  tags :: "(string \<times> string) list"

text \<open>
  The state the script builds: the stacks of the app in the order of construction, and
  the dependencies in the order of declaration. \<^verbatim>\<open>s.addDependency(t)\<close> records the pair
  \<open>(s, t)\<close>: the stack \<open>s\<close> is deployed after the stack \<open>t\<close>.
\<close>

record app =
  stacks :: "stack list"
  dependencies :: "(stack \<times> stack) list"

definition new_stack :: "stack \<Rightarrow> app \<Rightarrow> app" where
  "new_stack s a = a\<lparr>stacks := stacks a @ [s]\<rparr>"

definition addDependency :: "stack \<Rightarrow> stack \<Rightarrow> app \<Rightarrow> app" where
  "addDependency s t a = a\<lparr>dependencies := dependencies a @ [(s, t)]\<rparr>"

definition devNetworkStack :: "process_env \<Rightarrow> stack" where
  "devNetworkStack penv =
     \<lparr>stack_class = FleetMonitorNetworkStack, construct_id = ''FleetMonitorNetworkDev'',
      env = environments_dev penv, environmentName = ''dev'',
      vpc = None, securityGroup = None,
      stackName = ''fleet-monitor-network-dev'',
      tags = commonTags @ [(''Environment'', ''Development''), (''CostCenter'', ''Development'')]\<rparr>"

definition devSecurityStack :: "process_env \<Rightarrow> stack" where
  "devSecurityStack penv =
     \<lparr>stack_class = FleetMonitorSecurityStack, construct_id = ''FleetMonitorSecurityDev'',
      env = environments_dev penv, environmentName = ''dev'',
      vpc = Some ''FleetMonitorNetworkDev'', securityGroup = None,
      stackName = ''fleet-monitor-security-dev'',
      tags = commonTags @ [(''Environment'', ''Development''), (''CostCenter'', ''Development'')]\<rparr>"

definition devMonitoringStack :: "process_env \<Rightarrow> stack" where
  "devMonitoringStack penv =
     \<lparr>stack_class = FleetMonitorMonitoringStack, construct_id = ''FleetMonitorMonitoringDev'',
      env = environments_dev penv, environmentName = ''dev'',
      vpc = None, securityGroup = None,
      stackName = ''fleet-monitor-monitoring-dev'',
      tags = commonTags @ [(''Environment'', ''Development''), (''CostCenter'', ''Development'')]\<rparr>"

definition devMainStack :: "process_env \<Rightarrow> stack" where
  "devMainStack penv =
     \<lparr>stack_class = FleetMonitorStack, construct_id = ''FleetMonitorDev'',
      env = environments_dev penv, environmentName = ''dev'',
      vpc = Some ''FleetMonitorNetworkDev'', securityGroup = Some ''FleetMonitorSecurityDev'',
      stackName = ''fleet-monitor-dev'',
      tags = commonTags @ [(''Environment'', ''Development''), (''CostCenter'', ''Development'')]\<rparr>"

definition stagingNetworkStack :: "process_env \<Rightarrow> stack" where
  "stagingNetworkStack penv =
     \<lparr>stack_class = FleetMonitorNetworkStack, construct_id = ''FleetMonitorNetworkStaging'',
      env = environments_staging penv, environmentName = ''staging'',
      vpc = None, securityGroup = None,
      stackName = ''fleet-monitor-network-staging'',
      tags = commonTags @ [(''Environment'', ''Staging''), (''CostCenter'', ''Testing'')]\<rparr>"

definition stagingSecurityStack :: "process_env \<Rightarrow> stack" where
  "stagingSecurityStack penv =
     \<lparr>stack_class = FleetMonitorSecurityStack, construct_id = ''FleetMonitorSecurityStaging'',
      env = environments_staging penv, environmentName = ''staging'',
      vpc = Some ''FleetMonitorNetworkStaging'', securityGroup = None,
      stackName = ''fleet-monitor-security-staging'',
      tags = commonTags @ [(''Environment'', ''Staging''), (''CostCenter'', ''Testing'')]\<rparr>"

definition stagingMonitoringStack :: "process_env \<Rightarrow> stack" where
  "stagingMonitoringStack penv =
     \<lparr>stack_class = FleetMonitorMonitoringStack, construct_id = ''FleetMonitorMonitoringStaging'',
      env = environments_staging penv, environmentName = ''staging'',
      vpc = None, securityGroup = None,
      stackName = ''fleet-monitor-monitoring-staging'',
      tags = commonTags @ [(''Environment'', ''Staging''), (''CostCenter'', ''Testing'')]\<rparr>"

definition stagingMainStack :: "process_env \<Rightarrow> stack" where
  "stagingMainStack penv =
     \<lparr>stack_class = FleetMonitorStack, construct_id = ''FleetMonitorStaging'',
      env = environments_staging penv, environmentName = ''staging'',
      vpc = Some ''FleetMonitorNetworkStaging'', securityGroup = Some ''FleetMonitorSecurityStaging'',
      stackName = ''fleet-monitor-staging'',
      tags = commonTags @ [(''Environment'', ''Staging''), (''CostCenter'', ''Testing'')]\<rparr>"

definition prodNetworkStack :: "process_env \<Rightarrow> stack" where
  "prodNetworkStack penv =
     \<lparr>stack_class = FleetMonitorNetworkStack, construct_id = ''FleetMonitorNetworkProd'',
      env = environments_prod penv, environmentName = ''prod'',
      vpc = None, securityGroup = None,
      stackName = ''fleet-monitor-network-prod'',
      tags = commonTags @ [(''Environment'', ''Production''), (''CostCenter'', ''Production''), (''Backup'', ''Required'')]\<rparr>"

definition prodSecurityStack :: "process_env \<Rightarrow> stack" where
  "prodSecurityStack penv =
     \<lparr>stack_class = FleetMonitorSecurityStack, construct_id = ''FleetMonitorSecurityProd'',
      env = environments_prod penv, environmentName = ''prod'',
      vpc = Some ''FleetMonitorNetworkProd'', securityGroup = None,
      stackName = ''fleet-monitor-security-prod'',
      tags = commonTags @ [(''Environment'', ''Production''), (''CostCenter'', ''Production''), (''Backup'', ''Required'')]\<rparr>"

definition prodMonitoringStack :: "process_env \<Rightarrow> stack" where
  "prodMonitoringStack penv =
     \<lparr>stack_class = FleetMonitorMonitoringStack, construct_id = ''FleetMonitorMonitoringProd'',
      env = environments_prod penv, environmentName = ''prod'',
      vpc = None, securityGroup = None,
      stackName = ''fleet-monitor-monitoring-prod'',
      tags = commonTags @ [(''Environment'', ''Production''), (''CostCenter'', ''Production''), (''Backup'', ''Required'')]\<rparr>"

definition prodMainStack :: "process_env \<Rightarrow> stack" where
  "prodMainStack penv =
     \<lparr>stack_class = FleetMonitorStack, construct_id = ''FleetMonitorProd'',
      env = environments_prod penv, environmentName = ''prod'',
      vpc = Some ''FleetMonitorNetworkProd'', securityGroup = Some ''FleetMonitorSecurityProd'',
      stackName = ''fleet-monitor-prod'',
      tags = commonTags @ [(''Environment'', ''Production''), (''CostCenter'', ''Production''), (''Backup'', ''Required'')]\<rparr>"

text \<open>The script, statement by statement, from \<^verbatim>\<open>new cdk.App()\<close>.\<close>

definition app_main :: "process_env \<Rightarrow> app" where
  "app_main penv =
     fold (\<lambda>statement a. statement a)
       [new_stack (devNetworkStack penv),
        new_stack (devSecurityStack penv),
        new_stack (devMonitoringStack penv),
        new_stack (devMainStack penv),
        addDependency (devSecurityStack penv) (devNetworkStack penv),
        addDependency (devMainStack penv) (devNetworkStack penv),
        addDependency (devMainStack penv) (devSecurityStack penv),
        addDependency (devMonitoringStack penv) (devMainStack penv),
        new_stack (stagingNetworkStack penv),
        new_stack (stagingSecurityStack penv),
        new_stack (stagingMonitoringStack penv),
        new_stack (stagingMainStack penv),
        addDependency (stagingSecurityStack penv) (stagingNetworkStack penv),
        addDependency (stagingMainStack penv) (stagingNetworkStack penv),
        addDependency (stagingMainStack penv) (stagingSecurityStack penv),
        addDependency (stagingMonitoringStack penv) (stagingMainStack penv),
        new_stack (prodNetworkStack penv),
        new_stack (prodSecurityStack penv),
        new_stack (prodMonitoringStack penv),
        new_stack (prodMainStack penv),
        addDependency (prodSecurityStack penv) (prodNetworkStack penv),
        addDependency (prodMainStack penv) (prodNetworkStack penv),
        addDependency (prodMainStack penv) (prodSecurityStack penv),
        addDependency (prodMonitoringStack penv) (prodMainStack penv)]
       \<lparr>stacks = [], dependencies = []\<rparr>"

text \<open>The stacks of a tier, by the environment name they were constructed with.\<close>

definition tier_units :: "app \<Rightarrow> string \<Rightarrow> stack list" where
  "tier_units a e = filter (\<lambda>s. environmentName s = e) (stacks a)"

text \<open>
  The order among the units of a tier: a pair \<open>(k, k')\<close> for every recorded dependency of a
  unit of class \<open>k'\<close> on a unit of class \<open>k\<close>, both of the tier, so that \<open>k\<close> precedes \<open>k'\<close>.
\<close>

definition tier_order :: "app \<Rightarrow> string \<Rightarrow> (stack_class \<times> stack_class) list" where
  "tier_order a e =
     map (\<lambda>(s, t). (stack_class t, stack_class s))
       (filter (\<lambda>(s, t). environmentName s = e \<and> environmentName t = e) (dependencies a))"

text \<open>The recorded dependencies between units of different tiers.\<close>

definition cross_tier_dependencies :: "app \<Rightarrow> (string \<times> string) list" where
  "cross_tier_dependencies a =
     map (\<lambda>(s, t). (construct_id s, construct_id t))
       (filter (\<lambda>(s, t). environmentName s \<noteq> environmentName t) (dependencies a))"

section \<open>Properties of the resolvers\<close>

lemma js_get_own: "map_of obj key = Some v \<Longrightarrow> js_get obj key = Entry v"
  by (simp add: js_get_def)

lemma js_get_inherited:
  "map_of obj key = None \<Longrightarrow> key \<in> set object_prototype_keys \<Longrightarrow>
   js_get obj key = ObjectPrototypeMember key"
  by (simp add: js_get_def)

lemma js_get_missing:
  "map_of obj key = None \<Longrightarrow> key \<notin> set object_prototype_keys \<Longrightarrow>
   js_get obj key = Undefined"
  by (simp add: js_get_def)

text \<open>
  C2. Resolving \<^verbatim>\<open>staging\<close> gives two availability zones, the address block
  \<^verbatim>\<open>10.1.0.0/16\<close> and one NAT gateway from the VPC table, and a retention of two weeks
  from the retention table.
\<close>

theorem staging_resolution:
  "getVpcConfig ''staging'' = Entry \<lparr>maxAzs = 2, cidr = ''10.1.0.0/16'', natGateways = 1\<rparr>
   \<and> getLogRetention ''staging'' = Entry TWO_WEEKS"
  by (simp add: getVpcConfig_def getLogRetention_def js_or_def js_get_def configs_def
      retentions_def)

text \<open>
  C3. Resolving the unrecognized identifier \<^verbatim>\<open>typo-env\<close> gives the same results as
  resolving \<^verbatim>\<open>dev\<close>: two availability zones, the address block \<^verbatim>\<open>10.0.0.0/16\<close>, one
  NAT gateway and a retention of one week.
\<close>

theorem typo_env_resolution:
  "getVpcConfig ''typo-env'' = getVpcConfig ''dev''
   \<and> getLogRetention ''typo-env'' = getLogRetention ''dev''
   \<and> getVpcConfig ''typo-env'' = Entry \<lparr>maxAzs = 2, cidr = ''10.0.0.0/16'', natGateways = 1\<rparr>
   \<and> getLogRetention ''typo-env'' = Entry ONE_WEEK"
  by (simp add: getVpcConfig_def getLogRetention_def js_or_def js_get_def configs_def
      retentions_def object_prototype_keys_def)

subsection \<open>What the resolvers do on every string\<close>

text \<open>Neither resolver ever returns \<^verbatim>\<open>undefined\<close>.\<close>

lemma getVpcConfig_defined: "getVpcConfig e \<noteq> Undefined"
  by (auto simp add: getVpcConfig_def js_or_def js_get_def configs_def split: if_splits)

lemma getLogRetention_defined: "getLogRetention e \<noteq> Undefined"
  by (auto simp add: getLogRetention_def js_or_def js_get_def retentions_def split: if_splits)

text \<open>The three tiers resolve to their own table entries.\<close>

lemma getVpcConfig_tiers:
  "getVpcConfig ''dev'' = Entry \<lparr>maxAzs = 2, cidr = ''10.0.0.0/16'', natGateways = 1\<rparr>"
  "getVpcConfig ''staging'' = Entry \<lparr>maxAzs = 2, cidr = ''10.1.0.0/16'', natGateways = 1\<rparr>"
  "getVpcConfig ''prod'' = Entry \<lparr>maxAzs = 3, cidr = ''10.2.0.0/16'', natGateways = 2\<rparr>"
  by (simp_all add: getVpcConfig_def js_or_def js_get_def configs_def)

lemma getLogRetention_tiers:
  "getLogRetention ''dev'' = Entry ONE_WEEK"
  "getLogRetention ''staging'' = Entry TWO_WEEKS"
  "getLogRetention ''prod'' = Entry SIX_MONTHS"
  by (simp_all add: getLogRetention_def js_or_def js_get_def retentions_def)

text \<open>
  A string that is neither a tier nor a property name of \<^verbatim>\<open>Object.prototype\<close> resolves
  as \<^verbatim>\<open>dev\<close> does.
\<close>

lemma getVpcConfig_fallback:
  assumes "e \<notin> set object_prototype_keys" and "e \<noteq> ''staging''" and "e \<noteq> ''prod''"
  shows "getVpcConfig e = getVpcConfig ''dev''"
  using assms by (simp add: getVpcConfig_def js_or_def js_get_def configs_def)

lemma getLogRetention_fallback:
  assumes "e \<notin> set object_prototype_keys" and "e \<noteq> ''staging''" and "e \<noteq> ''prod''"
  shows "getLogRetention e = getLogRetention ''dev''"
  using assms by (simp add: getLogRetention_def js_or_def js_get_def retentions_def)

text \<open>A property name of \<^verbatim>\<open>Object.prototype\<close> resolves to the inherited member.\<close>

lemma getVpcConfig_inherited:
  assumes "e \<in> set object_prototype_keys"
  shows "getVpcConfig e = ObjectPrototypeMember e"
proof -
  have "map_of configs e = None"
    using assms by (auto simp add: configs_def object_prototype_keys_def)
  then have "js_get configs e = ObjectPrototypeMember e"
    using assms by (rule js_get_inherited)
  then show ?thesis
    by (simp add: getVpcConfig_def js_or_def)
qed

lemma getLogRetention_inherited:
  assumes "e \<in> set object_prototype_keys"
  shows "getLogRetention e = ObjectPrototypeMember e"
proof -
  have "map_of retentions e = None"
    using assms by (auto simp add: retentions_def object_prototype_keys_def)
  then have "js_get retentions e = ObjectPrototypeMember e"
    using assms by (rule js_get_inherited)
  then show ?thesis
    by (simp add: getLogRetention_def js_or_def)
qed

text \<open>
  C1. Both resolvers return a result for every string, the three tiers resolve to their
  table entries, and every other string is meant to resolve as \<^verbatim>\<open>dev\<close> does. At the
  string \<^verbatim>\<open>constructor\<close> the resolvers return the member that the table inherits from
  \<^verbatim>\<open>Object.prototype\<close>, which is truthy, so the fallback is not taken and the result
  differs from the one for \<^verbatim>\<open>dev\<close>.
\<close>

theorem resolvers_at_constructor:
  "getVpcConfig ''constructor'' = ObjectPrototypeMember ''constructor''
   \<and> getVpcConfig ''constructor'' \<noteq> getVpcConfig ''dev''
   \<and> getLogRetention ''constructor'' = ObjectPrototypeMember ''constructor''
   \<and> getLogRetention ''constructor'' \<noteq> getLogRetention ''dev''"
  by (simp add: getVpcConfig_def getLogRetention_def js_or_def js_get_def configs_def
      retentions_def object_prototype_keys_def)

section \<open>Sizing of the tiers\<close>

lemma parse_cidr_dev: "parse_cidr ''10.0.0.0/16'' = Some (167772160, 16)"
  by (simp add: parse_cidr_def parse_ipv4_def parse_decimal_def digit_of_def)

lemma parse_cidr_staging: "parse_cidr ''10.1.0.0/16'' = Some (167837696, 16)"
  by (simp add: parse_cidr_def parse_ipv4_def parse_decimal_def digit_of_def)

lemma parse_cidr_prod: "parse_cidr ''10.2.0.0/16'' = Some (167903232, 16)"
  by (simp add: parse_cidr_def parse_ipv4_def parse_decimal_def digit_of_def)

lemmas parse_cidr_tiers = parse_cidr_dev parse_cidr_staging parse_cidr_prod

text \<open>
  C4. The production entry has at least as many NAT gateways as the development entry
  (2 against 1), and its address block holds at least as many addresses (65536 each).
\<close>

theorem prod_sizing_not_below_dev:
  "\<exists>d p cd cp.
     getVpcConfig ''dev'' = Entry d \<and> getVpcConfig ''prod'' = Entry p
     \<and> natGateways d = 1 \<and> natGateways p = 2 \<and> natGateways d \<le> natGateways p
     \<and> cidr_capacity (cidr d) = Some cd \<and> cidr_capacity (cidr p) = Some cp
     \<and> cd = 65536 \<and> cp = 65536 \<and> cd \<le> cp"
  by (simp add: getVpcConfig_tiers cidr_capacity_def parse_cidr_tiers)

text \<open>
  C7. The address blocks of the three tiers are the ranges of 65536 addresses starting
  at \<^verbatim>\<open>10.0.0.0\<close>, \<^verbatim>\<open>10.1.0.0\<close> and \<^verbatim>\<open>10.2.0.0\<close>, and no address lies in two of them.
\<close>

theorem tier_blocks_disjoint:
  "\<exists>d s p.
     getVpcConfig ''dev'' = Entry d \<and> getVpcConfig ''staging'' = Entry s
     \<and> getVpcConfig ''prod'' = Entry p
     \<and> cidr d = ''10.0.0.0/16'' \<and> cidr s = ''10.1.0.0/16'' \<and> cidr p = ''10.2.0.0/16''
     \<and> cidr_addresses (cidr d) = {167772160 ..< 167837696}
     \<and> cidr_addresses (cidr s) = {167837696 ..< 167903232}
     \<and> cidr_addresses (cidr p) = {167903232 ..< 167968768}
     \<and> cidr_addresses (cidr d) \<inter> cidr_addresses (cidr s) = {}
     \<and> cidr_addresses (cidr d) \<inter> cidr_addresses (cidr p) = {}
     \<and> cidr_addresses (cidr s) \<inter> cidr_addresses (cidr p) = {}"
  by (simp add: getVpcConfig_tiers cidr_addresses_def parse_cidr_tiers)

text \<open>
  C10. The production entry has three availability zones, strictly more than the two of
  the development entry and the two of the staging entry.
\<close>

theorem prod_zones_above_others:
  "\<exists>d s p.
     getVpcConfig ''dev'' = Entry d \<and> getVpcConfig ''staging'' = Entry s
     \<and> getVpcConfig ''prod'' = Entry p
     \<and> maxAzs p = 3 \<and> maxAzs d = 2 \<and> maxAzs s = 2
     \<and> maxAzs d < maxAzs p \<and> maxAzs s < maxAzs p"
  by (simp add: getVpcConfig_tiers)

section \<open>The flow-log log group\<close>

text \<open>
  C8. The removal policy of the flow-log log group is \<open>RETAIN\<close> exactly when the
  environment name is the string \<^verbatim>\<open>prod\<close>, and \<open>DESTROY\<close> for every other string.
\<close>

theorem removal_policy_retain_iff_prod:
  "(removalPolicy (VPCFlowLogGroup e) = RETAIN \<longleftrightarrow> e = ''prod'')
   \<and> (removalPolicy (VPCFlowLogGroup e) = DESTROY \<longleftrightarrow> e \<noteq> ''prod'')"
  by (simp add: VPCFlowLogGroup_def)

theorem removal_policy_retain_iff_prod_witness:
  "removalPolicy (VPCFlowLogGroup ''prod'') = RETAIN
   \<and> removalPolicy (VPCFlowLogGroup ''Prod'') = DESTROY
   \<and> removalPolicy (VPCFlowLogGroup ''typo-env'') = DESTROY"
  using removal_policy_retain_iff_prod [of "''prod''"]
    removal_policy_retain_iff_prod [of "''Prod''"]
    removal_policy_retain_iff_prod [of "''typo-env''"]
  by simp

text \<open>
  C9. The name of the flow-log log group is \<^verbatim>\<open>/aws/vpc/flowlogs/\<close> followed by the
  environment name as given, so it equals the name for \<^verbatim>\<open>dev\<close> only when the
  environment name is \<^verbatim>\<open>dev\<close>, also where the resolvers fall back to the entry of
  \<^verbatim>\<open>dev\<close>.
\<close>

theorem log_group_name_keeps_identifier:
  "logGroupName (VPCFlowLogGroup e) = ''/aws/vpc/flowlogs/'' @ e
   \<and> (logGroupName (VPCFlowLogGroup e) = logGroupName (VPCFlowLogGroup ''dev'')
        \<longleftrightarrow> e = ''dev'')"
  by (simp add: VPCFlowLogGroup_def)

theorem log_group_name_keeps_identifier_witness:
  "logGroupName (VPCFlowLogGroup ''typo-env'') = ''/aws/vpc/flowlogs/typo-env''
   \<and> logGroupName (VPCFlowLogGroup ''typo-env'') \<noteq> logGroupName (VPCFlowLogGroup ''dev'')
   \<and> retention (VPCFlowLogGroup ''typo-env'') = retention (VPCFlowLogGroup ''dev'')"
proof -
  have "retention (VPCFlowLogGroup ''typo-env'') = retention (VPCFlowLogGroup ''dev'')"
    using getLogRetention_fallback [of "''typo-env''"]
    by (simp add: VPCFlowLogGroup_def object_prototype_keys_def)
  moreover have "logGroupName (VPCFlowLogGroup ''typo-env'') = ''/aws/vpc/flowlogs/'' @ ''typo-env''"
    using log_group_name_keeps_identifier [of "''typo-env''"] by blast
  moreover have "logGroupName (VPCFlowLogGroup ''typo-env'')
      = logGroupName (VPCFlowLogGroup ''dev'') \<longleftrightarrow> ''typo-env'' = ''dev''"
    using log_group_name_keeps_identifier [of "''typo-env''"] by blast
  then have "logGroupName (VPCFlowLogGroup ''typo-env'') \<noteq> logGroupName (VPCFlowLogGroup ''dev'')"
    by simp
  ultimately show ?thesis
    by simp
qed

section \<open>The composition\<close>

text \<open>What the script leaves in the app, for every setting of the environment variables.\<close>

lemmas stack_defs =
  devNetworkStack_def devSecurityStack_def devMonitoringStack_def devMainStack_def
  stagingNetworkStack_def stagingSecurityStack_def stagingMonitoringStack_def stagingMainStack_def
  prodNetworkStack_def prodSecurityStack_def prodMonitoringStack_def prodMainStack_def

lemma dependencies_app_main:
  "dependencies (app_main penv) =
     [(devSecurityStack penv, devNetworkStack penv),
      (devMainStack penv, devNetworkStack penv),
      (devMainStack penv, devSecurityStack penv),
      (devMonitoringStack penv, devMainStack penv),
      (stagingSecurityStack penv, stagingNetworkStack penv),
      (stagingMainStack penv, stagingNetworkStack penv),
      (stagingMainStack penv, stagingSecurityStack penv),
      (stagingMonitoringStack penv, stagingMainStack penv),
      (prodSecurityStack penv, prodNetworkStack penv),
      (prodMainStack penv, prodNetworkStack penv),
      (prodMainStack penv, prodSecurityStack penv),
      (prodMonitoringStack penv, prodMainStack penv)]"
  by (simp add: app_main_def new_stack_def addDependency_def)

lemma stacks_app_main:
  "stacks (app_main penv) =
     [devNetworkStack penv, devSecurityStack penv, devMonitoringStack penv, devMainStack penv,
      stagingNetworkStack penv, stagingSecurityStack penv, stagingMonitoringStack penv,
      stagingMainStack penv,
      prodNetworkStack penv, prodSecurityStack penv, prodMonitoringStack penv,
      prodMainStack penv]"
  by (simp add: app_main_def new_stack_def addDependency_def)

lemma stack_tier [simp]:
  "environmentName (devNetworkStack penv) = ''dev''"
  "environmentName (devSecurityStack penv) = ''dev''"
  "environmentName (devMonitoringStack penv) = ''dev''"
  "environmentName (devMainStack penv) = ''dev''"
  "environmentName (stagingNetworkStack penv) = ''staging''"
  "environmentName (stagingSecurityStack penv) = ''staging''"
  "environmentName (stagingMonitoringStack penv) = ''staging''"
  "environmentName (stagingMainStack penv) = ''staging''"
  "environmentName (prodNetworkStack penv) = ''prod''"
  "environmentName (prodSecurityStack penv) = ''prod''"
  "environmentName (prodMonitoringStack penv) = ''prod''"
  "environmentName (prodMainStack penv) = ''prod''"
  by (simp_all add: stack_defs)

lemma stack_kind [simp]:
  "stack_class (devNetworkStack penv) = FleetMonitorNetworkStack"
  "stack_class (devSecurityStack penv) = FleetMonitorSecurityStack"
  "stack_class (devMonitoringStack penv) = FleetMonitorMonitoringStack"
  "stack_class (devMainStack penv) = FleetMonitorStack"
  "stack_class (stagingNetworkStack penv) = FleetMonitorNetworkStack"
  "stack_class (stagingSecurityStack penv) = FleetMonitorSecurityStack"
  "stack_class (stagingMonitoringStack penv) = FleetMonitorMonitoringStack"
  "stack_class (stagingMainStack penv) = FleetMonitorStack"
  "stack_class (prodNetworkStack penv) = FleetMonitorNetworkStack"
  "stack_class (prodSecurityStack penv) = FleetMonitorSecurityStack"
  "stack_class (prodMonitoringStack penv) = FleetMonitorMonitoringStack"
  "stack_class (prodMainStack penv) = FleetMonitorStack"
  by (simp_all add: stack_defs)

text \<open>
  C5. In each tier the recorded dependencies order the four units as: network before
  security, network before main, security before main, main before monitoring, and
  nothing else. The twelve recorded dependencies are these four in each of the three
  tiers, and none joins units of different tiers.
\<close>

theorem tier_dependency_edges:
  "tier_order (app_main penv) ''dev'' =
     [(FleetMonitorNetworkStack, FleetMonitorSecurityStack),
      (FleetMonitorNetworkStack, FleetMonitorStack),
      (FleetMonitorSecurityStack, FleetMonitorStack),
      (FleetMonitorStack, FleetMonitorMonitoringStack)]
   \<and> tier_order (app_main penv) ''staging'' = tier_order (app_main penv) ''dev''
   \<and> tier_order (app_main penv) ''prod'' = tier_order (app_main penv) ''dev''
   \<and> cross_tier_dependencies (app_main penv) = []
   \<and> length (dependencies (app_main penv)) = 12
   \<and> map stack_class (tier_units (app_main penv) ''dev'') =
       [FleetMonitorNetworkStack, FleetMonitorSecurityStack, FleetMonitorMonitoringStack,
        FleetMonitorStack]
   \<and> map stack_class (tier_units (app_main penv) ''staging'')
       = map stack_class (tier_units (app_main penv) ''dev'')
   \<and> map stack_class (tier_units (app_main penv) ''prod'')
       = map stack_class (tier_units (app_main penv) ''dev'')"
  by (simp add: tier_order_def cross_tier_dependencies_def tier_units_def
      dependencies_app_main stacks_app_main)

text \<open>
  C6. The account is read from the variable \<^verbatim>\<open>CDK_DEFAULT_ACCOUNT\<close> and, when that is
  unset or empty, from the variable \<^verbatim>\<open>AWS_ACCOUNT_ID\<close>. The region is read from the
  variable \<^verbatim>\<open>CDK_DEFAULT_REGION\<close> alone: when that is unset or empty the region is
  \<^verbatim>\<open>us-east-1\<close>, and no other variable changes it. The three tiers share the same
  account and region.
\<close>

theorem environment_variables_read:
  "account (environments_dev penv) =
     (case penv ''CDK_DEFAULT_ACCOUNT'' of
        None \<Rightarrow> penv ''AWS_ACCOUNT_ID''
      | Some a \<Rightarrow> if a = [] then penv ''AWS_ACCOUNT_ID'' else Some a)
   \<and> region (environments_dev penv) =
     (case penv ''CDK_DEFAULT_REGION'' of
        None \<Rightarrow> Some ''us-east-1''
      | Some r \<Rightarrow> if r = [] then Some ''us-east-1'' else Some r)
   \<and> (v \<noteq> ''CDK_DEFAULT_REGION'' \<longrightarrow>
        region (environments_dev (penv(v := x))) = region (environments_dev penv))
   \<and> environments_staging penv = environments_dev penv
   \<and> environments_prod penv = environments_dev penv"
  by (simp add: environments_dev_def environments_staging_def environments_prod_def str_or_def)

theorem environment_variables_read_witness:
  "''AWS_REGION'' \<noteq> ''CDK_DEFAULT_REGION''
   \<and> account (environments_dev [''CDK_DEFAULT_ACCOUNT'' \<mapsto> '''', ''AWS_ACCOUNT_ID'' \<mapsto> ''123456789012''])
       = Some ''123456789012''
   \<and> region (environments_dev [''AWS_ACCOUNT_ID'' \<mapsto> ''123456789012'']) = Some ''us-east-1''
   \<and> region (environments_dev [''AWS_ACCOUNT_ID'' \<mapsto> ''123456789012'', ''AWS_REGION'' \<mapsto> ''eu-west-1''])
       = Some ''us-east-1''"
proof -
  have ne: "''AWS_REGION'' \<noteq> ''CDK_DEFAULT_REGION''"
    by simp
  have "region (environments_dev ([''AWS_ACCOUNT_ID'' \<mapsto> ''123456789012''](''AWS_REGION'' := Some ''eu-west-1'')))
      = region (environments_dev [''AWS_ACCOUNT_ID'' \<mapsto> ''123456789012''])"
    using environment_variables_read
      [of "[''AWS_ACCOUNT_ID'' \<mapsto> ''123456789012'']" "''AWS_REGION''" "Some ''eu-west-1''"] ne
    by blast
  moreover have "region (environments_dev [''AWS_ACCOUNT_ID'' \<mapsto> ''123456789012'']) = Some ''us-east-1''"
    using environment_variables_read [of "[''AWS_ACCOUNT_ID'' \<mapsto> ''123456789012'']"]
    by simp
  moreover have "account (environments_dev [''CDK_DEFAULT_ACCOUNT'' \<mapsto> '''', ''AWS_ACCOUNT_ID'' \<mapsto> ''123456789012''])
       = Some ''123456789012''"
    using environment_variables_read
      [of "[''CDK_DEFAULT_ACCOUNT'' \<mapsto> '''', ''AWS_ACCOUNT_ID'' \<mapsto> ''123456789012'']"]
    by simp
  ultimately show ?thesis
    using ne by simp
qed

text \<open>
  As C6 is stated, the region has a second variable that is read when the first is unset.
  There is none: with one variable set to \<^verbatim>\<open>eu-west-1\<close> and nothing else, the region is
  \<^verbatim>\<open>eu-west-1\<close> only when that variable is \<^verbatim>\<open>CDK_DEFAULT_REGION\<close>.
\<close>

theorem region_has_no_fallback_variable:
  "\<not> (\<exists>v. v \<noteq> ''CDK_DEFAULT_REGION''
          \<and> region (environments_dev (Map.empty(v \<mapsto> ''eu-west-1''))) = Some ''eu-west-1'')"
  by (simp add: environments_dev_def str_or_def)

end
